theory Spec2Isabelle
  imports Main "HOL-Library.Sublist" "HOL-Library.AList"
begin

section \<open>The service worker of Spiritual Count (sw.js)\<close>

text \<open>
  A shallow embedding of \<^verbatim>\<open>src/sw.js\<close>. The worker is event driven: each listener
  (install, activate, fetch, message) is a function from the environment (what the network
  answers, what the storage refuses) and the worker's world (the cache storage, the log of
  network calls, the host signals, the posted replies) to the outcome of the promise the
  listener hands to the host and the new world. Asynchronous steps are run to completion in
  program order.
\<close>

subsection \<open>Module constants\<close>

definition CACHE_NAME :: string where
  "CACHE_NAME = ''spiritual-count-v1''"

definition CACHE_VERSION :: string where
  "CACHE_VERSION = ''1.0.0''"

definition CORE_ASSETS :: "string list" where
  "CORE_ASSETS = [''/'', ''/index.html'', ''/about.html'', ''/tracker.html'',
     ''/themes.html'', ''/contact.html'', ''/style.css'', ''/script.js'']"

definition OPTIONAL_ASSETS :: "string list" where
  "OPTIONAL_ASSETS = [''/manifest.json'', ''/favicon.ico'']"

subsection \<open>Asset classifier\<close>

text \<open>\<^verbatim>\<open>String.prototype.endsWith\<close>: a comparison of the last characters, code unit by code unit.\<close>

definition endsWith :: "string \<Rightarrow> string \<Rightarrow> bool" where
  "endsWith s e = (length e \<le> length s \<and> drop (length s - length e) s = e)"

definition staticExtensions :: "string list" where
  "staticExtensions = [''.css'', ''.js'', ''.json'', ''.ico'', ''.png'', ''.jpg'', ''.jpeg'',
     ''.svg'', ''.woff'', ''.woff2'']"

definition isStaticAsset :: "string \<Rightarrow> bool" where
  "isStaticAsset pathname = list_ex (\<lambda>ext. endsWith pathname ext) staticExtensions"

definition isHTMLPage :: "string \<Rightarrow> bool" where
  "isHTMLPage pathname = (endsWith pathname ''.html'' \<or> pathname = ''/'')"

datatype routing_category = StaticAsset | HTMLPage | Other

text \<open>
  The \<^verbatim>\<open>if / else if / else\<close> chain of the fetch listener (lines 126 to 135), which
  chooses the strategy from \<^verbatim>\<open>url.pathname\<close>.
\<close>

definition classify :: "string \<Rightarrow> routing_category" where
  "classify pathname =
     (if isStaticAsset pathname then StaticAsset
      else if isHTMLPage pathname then HTMLPage
      else Other)"

subsection \<open>Requests, responses, errors\<close>

text \<open>
  A request as the handlers read it: its method and its URL, split as \<^verbatim>\<open>new URL(request.url)\<close>
  splits it into \<^verbatim>\<open>origin\<close>, \<^verbatim>\<open>pathname\<close> and \<^verbatim>\<open>search\<close> (the query string with its
  question mark, or the empty text).
\<close>

record request =
  "method" :: string
  origin :: string
  pathname :: string
  search :: string

text \<open>A response: the status line, the headers given to the constructor, the body.\<close>

record response =
  status :: nat
  statusText :: string
  headers :: "(string \<times> string) list"
  body :: string

text \<open>\<^verbatim>\<open>response.ok\<close>: the status is in the range 200 to 299.\<close>

definition ok :: "response \<Rightarrow> bool" where
  "ok r = (200 \<le> status r \<and> status r \<le> 299)"

text \<open>
  What a rejected promise carries: \<^verbatim>\<open>TypeError\<close> (a failed fetch, a failed
  \<^verbatim>\<open>addAll\<close>, a non-GET request given to \<^verbatim>\<open>put\<close>, a property of
  \<^verbatim>\<open>undefined\<close>), the storage's quota error, and the \<^verbatim>\<open>Error\<close> the HTML
  handler throws itself.
\<close>

datatype js_error = TypeError | QuotaExceededError | Error string

datatype settled = Fulfilled | Rejected js_error

subsection \<open>Environment and world\<close>

text \<open>
  The environment is what the worker cannot decide: its own origin, what the network answers
  to a request (\<open>None\<close>: the fetch promise rejects), and for which URLs the storage refuses
  a write.
\<close>

record env =
  location_origin :: string
  fetch :: "request \<Rightarrow> response option"
  storage_full :: "string \<times> string \<Rightarrow> bool"

text \<open>Values that travel on the message channel.\<close>

datatype js_val =
    JUndefined
  | JNull
  | JBool bool
  | JNum int
  | JStr string
  | JObj "(string \<times> js_val) list"

type_synonym url = "string \<times> string"

type_synonym cache = "(url \<times> response) list"

text \<open>The cache storage: the named caches in creation order, as \<^verbatim>\<open>caches.keys()\<close> lists them.\<close>

type_synonym cache_storage = "(string \<times> cache) list"

record world =
  caches :: cache_storage
  net_log :: "request list"
  skip_waiting :: bool
  clients_claimed :: bool
  posted :: "(nat \<times> js_val) list"

subsection \<open>Cache storage\<close>

text \<open>
  The key of a cache entry: the URL of the request with its query string. The classifier
  reads the path alone, the cache compares the whole URL.
\<close>

definition request_url :: "request \<Rightarrow> url" where
  "request_url r = (origin r, pathname r @ search r)"

text \<open>A path given where a request is expected: a GET request at the worker's origin.\<close>

definition new_request :: "env \<Rightarrow> string \<Rightarrow> request" where
  "new_request e p =
     \<lparr>method = ''GET'', origin = location_origin e, pathname = p, search = []\<rparr>"

fun first_match :: "cache_storage \<Rightarrow> url \<Rightarrow> response option" where
  "first_match [] u = None"
| "first_match ((n, c) # cs) u =
     (case map_of c u of Some x \<Rightarrow> Some x | None \<Rightarrow> first_match cs u)"

text \<open>
  \<^verbatim>\<open>caches.match(request)\<close>: the first entry for the URL in any cache, in creation order;
  nothing for a request that is not a GET.
\<close>

definition caches_match :: "cache_storage \<Rightarrow> request \<Rightarrow> response option" where
  "caches_match cs r = (if method r \<noteq> ''GET'' then None else first_match cs (request_url r))"

definition caches_keys :: "cache_storage \<Rightarrow> string list" where
  "caches_keys cs = map fst cs"

definition caches_has :: "cache_storage \<Rightarrow> string \<Rightarrow> bool" where
  "caches_has cs n = (n \<in> set (caches_keys cs))"

text \<open>\<^verbatim>\<open>caches.open(name)\<close> creates the cache when there is none of that name.\<close>

definition caches_open :: "cache_storage \<Rightarrow> string \<Rightarrow> cache_storage" where
  "caches_open cs n = (if caches_has cs n then cs else cs @ [(n, [])])"

definition caches_delete :: "cache_storage \<Rightarrow> string \<Rightarrow> cache_storage" where
  "caches_delete cs n = AList.delete n cs"

definition cache_store :: "cache_storage \<Rightarrow> string \<Rightarrow> url \<Rightarrow> response \<Rightarrow> cache_storage" where
  "cache_store cs n u v = AList.map_entry n (AList.update u v) cs"

text \<open>
  \<^verbatim>\<open>cache.put(request, response)\<close> on the cache named \<open>n\<close>: rejects for a request that
  is not a GET, for a partial response (status 206), and when the storage refuses the write.
\<close>

definition cache_put ::
  "env \<Rightarrow> cache_storage \<Rightarrow> string \<Rightarrow> request \<Rightarrow> response \<Rightarrow> js_error + cache_storage" where
  "cache_put e cs n r v =
     (if method r \<noteq> ''GET'' then Inl TypeError
      else if status v = 206 then Inl TypeError
      else if storage_full e (request_url r) then Inl QuotaExceededError
      else Inr (cache_store cs n (request_url r) v))"

text \<open>
  The fetches of \<^verbatim>\<open>cache.addAll\<close>: every request must be answered, and with an ok
  status other than 206.
\<close>

fun fetch_all :: "env \<Rightarrow> request list \<Rightarrow> (request \<times> response) list option" where
  "fetch_all e [] = Some []"
| "fetch_all e (r # rs) =
     (case fetch e r of
        None \<Rightarrow> None
      | Some x \<Rightarrow>
          if ok x \<and> status x \<noteq> 206 then
            (case fetch_all e rs of None \<Rightarrow> None | Some xs \<Rightarrow> Some ((r, x) # xs))
          else None)"

text \<open>
  \<^verbatim>\<open>cache.addAll(paths)\<close> on the cache named \<open>n\<close>: all or nothing. It rejects when a
  fetch fails or is not ok, or when the storage refuses one of the writes, and then stores
  nothing.
\<close>

definition cache_addAll ::
  "env \<Rightarrow> world \<Rightarrow> string \<Rightarrow> string list \<Rightarrow> js_error option \<times> world" where
  "cache_addAll e w n paths =
     (let reqs = map (new_request e) paths;
          w1 = w\<lparr>net_log := net_log w @ reqs\<rparr>
      in case fetch_all e reqs of
           None \<Rightarrow> (Some TypeError, w1)
         | Some pairs \<Rightarrow>
             if list_ex (\<lambda>(q, x). storage_full e (request_url q)) pairs
             then (Some QuotaExceededError, w1)
             else (None, w1\<lparr>caches :=
                     fold (\<lambda>(q, x) cs. cache_store cs n (request_url q) x) pairs (caches w1)\<rparr>))"

subsection \<open>Install and activate\<close>

text \<open>
  One optional asset (lines 50 to 59): fetched, stored when ok; a failed fetch and a failed
  write are both caught.
\<close>

definition cache_optional :: "env \<Rightarrow> string \<Rightarrow> world \<Rightarrow> world" where
  "cache_optional e asset w =
     (let q = new_request e asset;
          w1 = w\<lparr>net_log := net_log w @ [q]\<rparr>
      in case fetch e q of
           None \<Rightarrow> w1
         | Some x \<Rightarrow>
             if ok x then
               (case cache_put e (caches w1) CACHE_NAME q x of
                  Inl err \<Rightarrow> w1
                | Inr cs \<Rightarrow> w1\<lparr>caches := cs\<rparr>)
             else w1)"

text \<open>
  The promise chain of the install listener before its last \<^verbatim>\<open>.catch\<close> (lines 36 to
  67): \<open>Some err\<close> when a step rejected.
\<close>

definition install_chain :: "env \<Rightarrow> world \<Rightarrow> js_error option \<times> world" where
  "install_chain e w =
     (let w1 = w\<lparr>caches := caches_open (caches w) CACHE_NAME\<rparr>
      in case cache_addAll e w1 CACHE_NAME CORE_ASSETS of
           (Some err, w2) \<Rightarrow> (Some err, w2)
         | (None, w2) \<Rightarrow>
             (let w3 = w2\<lparr>caches := caches_open (caches w2) CACHE_NAME\<rparr>;
                  w4 = fold (cache_optional e) OPTIONAL_ASSETS w3
              in (None, w4\<lparr>skip_waiting := True\<rparr>)))"

text \<open>
  The promise given to \<^verbatim>\<open>event.waitUntil\<close>: the chain followed by
  \<^verbatim>\<open>.catch((error) => { console.error(...) })\<close> (lines 68 to 70), whose handler logs and
  returns normally.
\<close>

definition install :: "env \<Rightarrow> world \<Rightarrow> settled \<times> world" where
  "install e w =
     (case install_chain e w of
        (Some err, w') \<Rightarrow> (Fulfilled, w')
      | (None, w') \<Rightarrow> (Fulfilled, w'))"

text \<open>
  The host's side of \<^verbatim>\<open>event.waitUntil\<close> in the install event: the worker is installed,
  and from then on may be activated, exactly when the promise fulfils; when it rejects the
  worker is discarded.
\<close>

datatype worker_state = Installed | Redundant

definition after_install :: "settled \<Rightarrow> worker_state" where
  "after_install s = (case s of Fulfilled \<Rightarrow> Installed | Rejected err \<Rightarrow> Redundant)"

text \<open>The activate listener (lines 78 to 105).\<close>

definition activate :: "world \<Rightarrow> settled \<times> world" where
  "activate w =
     (let cacheNames = caches_keys (caches w);
          cs = fold (\<lambda>cacheName cs.
                  if cacheName \<noteq> CACHE_NAME then caches_delete cs cacheName else cs)
                cacheNames (caches w)
      in (Fulfilled, w\<lparr>caches := cs, clients_claimed := True\<rparr>))"

subsection \<open>Strategy executors\<close>

text \<open>
  Each handler is an async function with one \<^verbatim>\<open>try\<close> block and one \<^verbatim>\<open>catch\<close>
  block. The \<open>_try\<close> function is the \<^verbatim>\<open>try\<close> block: \<open>Inl\<close> is the error it throws,
  with the world as it is at the throw.
\<close>

definition handleStaticAsset_try ::
  "env \<Rightarrow> world \<Rightarrow> request \<Rightarrow> (js_error + response) \<times> world" where
  "handleStaticAsset_try e w r =
     (case caches_match (caches w) r of
        Some cachedResponse \<Rightarrow> (Inr cachedResponse, w)
      | None \<Rightarrow>
          (let w1 = w\<lparr>net_log := net_log w @ [r]\<rparr>
           in case fetch e r of
                None \<Rightarrow> (Inl TypeError, w1)
              | Some networkResponse \<Rightarrow>
                  if ok networkResponse then
                    (let w2 = w1\<lparr>caches := caches_open (caches w1) CACHE_NAME\<rparr>
                     in case cache_put e (caches w2) CACHE_NAME r networkResponse of
                          Inl err \<Rightarrow> (Inl err, w2)
                        | Inr cs \<Rightarrow> (Inr networkResponse, w2\<lparr>caches := cs\<rparr>))
                  else (Inr networkResponse, w1)))"

definition handleStaticAsset ::
  "env \<Rightarrow> world \<Rightarrow> request \<Rightarrow> (js_error + response) \<times> world" where
  "handleStaticAsset e w r =
     (case handleStaticAsset_try e w r of
        (Inr resp, w') \<Rightarrow> (Inr resp, w')
      | (Inl err, w') \<Rightarrow>
          (case caches_match (caches w') r of
             Some cachedResponse \<Rightarrow> (Inr cachedResponse, w')
           | None \<Rightarrow>
               (Inr \<lparr>status = 503, statusText = ''Service Unavailable'', headers = [],
                     body = ''Asset not available offline''\<rparr>, w')))"

definition createOfflinePage_lines :: "string list" where
  "createOfflinePage_lines = [
     ''    <!DOCTYPE html>'',
     ''    <html lang=\"en\">'',
     ''    <head>'',
     ''        <meta charset=\"UTF-8\">'',
     ''        <meta name=\"viewport\" content=\"width=device-width, initial-scale=1.0\">'',
     ''        <title>Offline - Spiritual Count</title>'',
     ''        <style>'',
     ''            body {'',
     ''                font-family: -apple-system, BlinkMacSystemFont, 'Segoe UI', Roboto, sans-serif;'',
     ''                margin: 0;'',
     ''                padding: 20px;'',
     ''                background: linear-gradient(135deg, #667eea 0%, #764ba2 100%);'',
     ''                color: white;'',
     ''                min-height: 100vh;'',
     ''                display: flex;'',
     ''                align-items: center;'',
     ''                justify-content: center;'',
     ''                text-align: center;'',
     ''            }'',
     ''            .container {'',
     ''                max-width: 400px;'',
     ''                background: rgba(255, 255, 255, 0.1);'',
     ''                padding: 2rem;'',
     ''                border-radius: 1rem;'',
     ''                backdrop-filter: blur(10px);'',
     ''            }'',
     ''            h1 {'',
     ''                margin-bottom: 1rem;'',
     ''                font-size: 2rem;'',
     ''            }'',
     ''            p {'',
     ''                margin-bottom: 1.5rem;'',
     ''                line-height: 1.6;'',
     ''            }'',
     ''            button {'',
     ''                background: rgba(255, 255, 255, 0.2);'',
     ''                border: 2px solid white;'',
     ''                color: white;'',
     ''                padding: 0.75rem 1.5rem;'',
     ''                border-radius: 0.5rem;'',
     ''                font-weight: 600;'',
     ''                cursor: pointer;'',
     ''                transition: all 0.3s ease;'',
     ''            }'',
     ''            button:hover {'',
     ''                background: rgba(255, 255, 255, 0.3);'',
     ''            }'',
     ''        </style>'',
     ''    </head>'',
     ''    <body>'',
     ''        <div class=\"container\">'',
     ''            <h1>'' @ [CHR 0xC3, CHR 0xB0, CHR 0xC5, CHR 0xB8, CHR 0xE2, CHR 0x80, CHR 0x9C, CHR 0xC2, CHR 0xB1] @ '' Spiritual Count</h1>'',
     ''            <p>You're currently offline, but don't worry! Once you're back online, you can access all features of Spiritual Count.</p>'',
     ''            <p>Your dhikr counts and settings are safely stored on your device.</p>'',
     ''            <button onclick=\"window.location.reload()\">Try Again</button>'',
     ''        </div>'',
     ''        <script>'',
     ''            // Auto-reload when back online'',
     ''            window.addEventListener('online', () => {'',
     ''                window.location.reload();'',
     ''            });'',
     ''        </script>'',
     ''    </body>'',
     ''    </html>'']"

text \<open>
  The template literal of \<^verbatim>\<open>createOfflinePage\<close> (lines 277 to 342): a line break after
  the opening quote, the lines above, and two blanks before the closing quote. The bytes
  of the source file are kept as they are.
\<close>

definition createOfflinePage :: string where
  "createOfflinePage =
     [CHR 0x0A] @ concat (map (\<lambda>l. l @ [CHR 0x0A]) createOfflinePage_lines) @ [CHR 0x20, CHR 0x20]"

definition handleHTMLPage_try ::
  "env \<Rightarrow> world \<Rightarrow> request \<Rightarrow> (js_error + response) \<times> world" where
  "handleHTMLPage_try e w r =
     (let w1 = w\<lparr>net_log := net_log w @ [r]\<rparr>
      in case fetch e r of
           None \<Rightarrow> (Inl TypeError, w1)
         | Some networkResponse \<Rightarrow>
             if ok networkResponse then
               (let w2 = w1\<lparr>caches := caches_open (caches w1) CACHE_NAME\<rparr>
                in case cache_put e (caches w2) CACHE_NAME r networkResponse of
                     Inl err \<Rightarrow> (Inl err, w2)
                   | Inr cs \<Rightarrow> (Inr networkResponse, w2\<lparr>caches := cs\<rparr>))
             else (Inl (Error ''Network response not ok''), w1))"

text \<open>The response built in the last line of the HTML handler's \<^verbatim>\<open>catch\<close> block.\<close>

definition offline_response :: response where
  "offline_response =
     \<lparr>status = 200, statusText = [], headers = [(''Content-Type'', ''text/html'')],
      body = createOfflinePage\<rparr>"

definition handleHTMLPage ::
  "env \<Rightarrow> world \<Rightarrow> request \<Rightarrow> (js_error + response) \<times> world" where
  "handleHTMLPage e w r =
     (case handleHTMLPage_try e w r of
        (Inr resp, w') \<Rightarrow> (Inr resp, w')
      | (Inl err, w') \<Rightarrow>
          (case caches_match (caches w') r of
             Some cachedResponse \<Rightarrow> (Inr cachedResponse, w')
           | None \<Rightarrow>
               (case caches_match (caches w') (new_request e ''/index.html'') of
                  Some indexFallback \<Rightarrow> (Inr indexFallback, w')
                | None \<Rightarrow> (Inr offline_response, w'))))"

definition handleNetworkFirst_try ::
  "env \<Rightarrow> world \<Rightarrow> request \<Rightarrow> (js_error + response) \<times> world" where
  "handleNetworkFirst_try e w r =
     (let w1 = w\<lparr>net_log := net_log w @ [r]\<rparr>
      in case fetch e r of
           None \<Rightarrow> (Inl TypeError, w1)
         | Some networkResponse \<Rightarrow>
             if ok networkResponse \<and> method r = ''GET'' then
               (let w2 = w1\<lparr>caches := caches_open (caches w1) CACHE_NAME\<rparr>
                in case cache_put e (caches w2) CACHE_NAME r networkResponse of
                     Inl err \<Rightarrow> (Inl err, w2)
                   | Inr cs \<Rightarrow> (Inr networkResponse, w2\<lparr>caches := cs\<rparr>))
             else (Inr networkResponse, w1))"

definition handleNetworkFirst ::
  "env \<Rightarrow> world \<Rightarrow> request \<Rightarrow> (js_error + response) \<times> world" where
  "handleNetworkFirst e w r =
     (case handleNetworkFirst_try e w r of
        (Inr resp, w') \<Rightarrow> (Inr resp, w')
      | (Inl err, w') \<Rightarrow>
          (case caches_match (caches w') r of
             Some cachedResponse \<Rightarrow> (Inr cachedResponse, w')
           | None \<Rightarrow>
               (Inr \<lparr>status = 503, statusText = ''Service Unavailable'', headers = [],
                     body = ''Request failed and no cached version available''\<rparr>, w')))"

subsection \<open>Fetch listener\<close>

text \<open>
  The fetch listener (lines 111 to 136): \<open>None\<close> when it returns without
  \<^verbatim>\<open>event.respondWith\<close>, so that the host handles the request itself.
\<close>

definition on_fetch ::
  "env \<Rightarrow> world \<Rightarrow> request \<Rightarrow> ((js_error + response) \<times> world) option" where
  "on_fetch e w r =
     (if method r \<noteq> ''GET'' then None
      else if origin r \<noteq> location_origin e then None
      else Some (case classify (pathname r) of
                   StaticAsset \<Rightarrow> handleStaticAsset e w r
                 | HTMLPage \<Rightarrow> handleHTMLPage e w r
                 | Other \<Rightarrow> handleNetworkFirst e w r))"

subsection \<open>Message listener\<close>

record message_event =
  ev_data :: js_val
  ev_ports :: "nat list"

text \<open>Truthiness, as \<^verbatim>\<open>&&\<close> and \<^verbatim>\<open>if\<close> test it.\<close>

fun truthy :: "js_val \<Rightarrow> bool" where
  "truthy JUndefined = False"
| "truthy JNull = False"
| "truthy (JBool b) = b"
| "truthy (JNum n) = (n \<noteq> 0)"
| "truthy (JStr s) = (s \<noteq> [])"
| "truthy (JObj fs) = True"

text \<open>
  Reading a property of a value that is neither null nor undefined: an own field of an
  object, \<^verbatim>\<open>undefined\<close> otherwise.
\<close>

fun get_prop :: "js_val \<Rightarrow> string \<Rightarrow> js_val" where
  "get_prop (JObj fs) k = (case map_of fs k of Some v \<Rightarrow> v | None \<Rightarrow> JUndefined)"
| "get_prop v k = JUndefined"

text \<open>
  \<^verbatim>\<open>event.ports[0].postMessage(m)\<close>: a TypeError when the event carries no port, one
  message on the first port otherwise.
\<close>

definition postMessage :: "message_event \<Rightarrow> world \<Rightarrow> js_val \<Rightarrow> js_error option \<times> world" where
  "postMessage ev w m =
     (case ev_ports ev of
        [] \<Rightarrow> (Some TypeError, w)
      | p # ps \<Rightarrow> (None, w\<lparr>posted := posted w @ [(p, m)]\<rparr>))"

text \<open>
  The message listener (lines 348 to 381). The \<^verbatim>\<open>switch\<close> compares with \<^verbatim>\<open>===\<close>.
  The continuation of \<^verbatim>\<open>caches.has\<close> in the CACHE_STATUS case runs within the step.
\<close>

definition on_message :: "message_event \<Rightarrow> world \<Rightarrow> js_error option \<times> world" where
  "on_message ev w =
     (if truthy (ev_data ev) \<and> truthy (get_prop (ev_data ev) ''type'') then
        (let t = get_prop (ev_data ev) ''type''
         in if t = JStr ''GET_VERSION'' then
              postMessage ev w
                (JObj [(''type'', JStr ''VERSION''), (''version'', JStr CACHE_VERSION)])
            else if t = JStr ''SKIP_WAITING'' then
              postMessage ev (w\<lparr>skip_waiting := True\<rparr>)
                (JObj [(''type'', JStr ''SKIPPED_WAITING'')])
            else if t = JStr ''CACHE_STATUS'' then
              postMessage ev w
                (JObj [(''type'', JStr ''CACHE_STATUS''),
                       (''hasCache'', JBool (caches_has (caches w) CACHE_NAME)),
                       (''cacheName'', JStr CACHE_NAME)])
            else (None, w))
      else (None, w))"

subsection \<open>Concrete inputs\<close>

text \<open>Environments, worlds and requests at which the theorems below are evaluated.\<close>

definition example_origin :: string where
  "example_origin = ''https://spiritual-count.example''"

definition offline_env :: env where
  "offline_env = \<lparr>location_origin = example_origin, fetch = (\<lambda>r. None), storage_full = (\<lambda>u. False)\<rparr>"

definition empty_world :: world where
  "empty_world = \<lparr>caches = [], net_log = [], skip_waiting = False, clients_claimed = False, posted = []\<rparr>"

definition get_request :: "string \<Rightarrow> request" where
  "get_request p = \<lparr>method = ''GET'', origin = example_origin, pathname = p, search = []\<rparr>"

definition page_response :: "string \<Rightarrow> response" where
  "page_response b = \<lparr>status = 200, statusText = ''OK'', headers = [], body = b\<rparr>"

definition not_found_response :: response where
  "not_found_response = \<lparr>status = 404, statusText = ''Not Found'', headers = [], body = ''missing''\<rparr>"

definition cached_world :: "string \<Rightarrow> string \<Rightarrow> world" where
  "cached_world p b = empty_world\<lparr>caches :=
     [(CACHE_NAME, [((example_origin, p), page_response b)])]\<rparr>"

definition not_found_env :: env where
  "not_found_env =
     \<lparr>location_origin = example_origin, fetch = (\<lambda>r. Some not_found_response),
      storage_full = (\<lambda>u. False)\<rparr>"

definition online_env :: env where
  "online_env =
     \<lparr>location_origin = example_origin, fetch = (\<lambda>r. Some (page_response ''content'')),
      storage_full = (\<lambda>u. False)\<rparr>"

definition stale_world :: world where
  "stale_world = empty_world\<lparr>caches :=
     [(''spiritual-count-v0'', [((example_origin, ''/''), page_response ''old'')]),
      (CACHE_NAME, [])]\<rparr>"

definition style_down_env :: env where
  "style_down_env =
     \<lparr>location_origin = example_origin,
      fetch = (\<lambda>r. if pathname r = ''/style.css'' then None else Some (page_response ''content'')),
      storage_full = (\<lambda>u. False)\<rparr>"

definition get_version_event :: message_event where
  "get_version_event = \<lparr>ev_data = JObj [(''type'', JStr ''GET_VERSION'')], ev_ports = [7]\<rparr>"

definition bogus_event :: message_event where
  "bogus_event = \<lparr>ev_data = JObj [(''type'', JStr ''bogus'')], ev_ports = [7]\<rparr>"

definition null_event :: message_event where
  "null_event = \<lparr>ev_data = JNull, ev_ports = [7]\<rparr>"

definition untyped_event :: message_event where
  "untyped_event = \<lparr>ev_data = JObj [(''kind'', JStr ''GET_VERSION'')], ev_ports = [7]\<rparr>"

text \<open>Whether a text occurs inside another, by a scan from the left.\<close>

fun has_infix :: "string \<Rightarrow> string \<Rightarrow> bool" where
  "has_infix n [] = (n = [])"
| "has_infix n (c # cs) = (prefix n (c # cs) \<or> has_infix n cs)"

section \<open>Properties\<close>

subsection \<open>Classifier\<close>

lemma endsWith_suffix: "endsWith s e = suffix e s"
proof
  assume "endsWith s e"
  then have "drop (length s - length e) s = e"
    by (simp add: endsWith_def)
  then show "suffix e s"
    by (metis suffix_drop)
next
  assume "suffix e s"
  then obtain zs where "s = zs @ e"
    by (auto simp: suffix_def)
  then show "endsWith s e"
    by (simp add: endsWith_def)
qed

lemma endsWith_last: "endsWith s e \<Longrightarrow> e \<noteq> [] \<Longrightarrow> last s = last e"
  by (auto simp: endsWith_suffix suffix_def)

lemma isStaticAsset_last:
  "isStaticAsset p \<Longrightarrow> last p \<in> {CHR ''s'', CHR ''n'', CHR ''o'', CHR ''g'', CHR ''f'', CHR ''2''}"
  unfolding isStaticAsset_def staticExtensions_def list_ex_iff
  by (auto dest!: endsWith_last)

lemma isHTMLPage_last: "isHTMLPage p \<Longrightarrow> last p \<in> {CHR ''l'', CHR ''/''}"
  unfolding isHTMLPage_def
  by (auto dest!: endsWith_last)

lemma static_html_disjoint: "isStaticAsset p \<Longrightarrow> \<not> isHTMLPage p"
proof
  assume s: "isStaticAsset p" and h: "isHTMLPage p"
  from isStaticAsset_last [OF s] isHTMLPage_last [OF h] show False
    by auto
qed

subsection \<open>Classifier: C4 and C9\<close>

lemma classify_examples:
  "classify ''/style.css'' = StaticAsset" "classify ''/about.html'' = HTMLPage"
  "classify ''/'' = HTMLPage" "classify ''/api/data'' = Other" "classify ''/STYLE.CSS'' = Other"
  by (simp_all add: classify_def isStaticAsset_def staticExtensions_def isHTMLPage_def endsWith_def)

text \<open>
  The entries of \<^verbatim>\<open>staticExtensions\<close> carry their dot: a path that ends in the letters
  of an extension without the dot is not a static asset.
\<close>

lemma classify_needs_dot: "classify ''/xcss'' = Other"
  by (simp add: classify_def isStaticAsset_def staticExtensions_def isHTMLPage_def endsWith_def)

lemma isStaticAsset_iff:
  "isStaticAsset p \<longleftrightarrow>
     (\<exists>ext \<in> set [''css'', ''js'', ''json'', ''ico'', ''png'', ''jpg'', ''jpeg'', ''svg'',
        ''woff'', ''woff2'']. suffix (''.'' @ ext) p)"
  by (simp add: isStaticAsset_def staticExtensions_def endsWith_suffix)

lemma isHTMLPage_iff: "isHTMLPage p \<longleftrightarrow> suffix ''.html'' p \<or> p = ''/''"
  by (simp add: isHTMLPage_def endsWith_suffix)

text \<open>
  C4. The category depends on the path alone. A path whose extension is one of css, js, json,
  ico, png, jpg, jpeg, svg, woff, woff2 (it ends in a dot followed by that extension, compared
  character by character, so case matters) is a StaticAsset; a path that ends in \<open>.html\<close>
  or is \<open>/\<close> is an HTMLPage; every other path is Other. The four scenarios of the
  specification hold, and an upper-case extension is not recognised.
\<close>

theorem classify_characterisation:
  "((\<exists>ext \<in> set [''css'', ''js'', ''json'', ''ico'', ''png'', ''jpg'', ''jpeg'', ''svg'',
        ''woff'', ''woff2'']. suffix (''.'' @ ext) p) \<longrightarrow> classify p = StaticAsset)
   \<and> ((suffix ''.html'' p \<or> p = ''/'') \<longrightarrow> classify p = HTMLPage)
   \<and> (\<not> (\<exists>ext \<in> set [''css'', ''js'', ''json'', ''ico'', ''png'', ''jpg'', ''jpeg'', ''svg'',
        ''woff'', ''woff2'']. suffix (''.'' @ ext) p) \<and> \<not> (suffix ''.html'' p \<or> p = ''/'')
        \<longrightarrow> classify p = Other)
   \<and> classify ''/style.css'' = StaticAsset
   \<and> classify ''/about.html'' = HTMLPage
   \<and> classify ''/'' = HTMLPage
   \<and> classify ''/api/data'' = Other
   \<and> classify ''/STYLE.CSS'' = Other"
proof -
  have a: "isStaticAsset p \<Longrightarrow> classify p = StaticAsset"
    by (simp add: classify_def)
  have b: "isHTMLPage p \<Longrightarrow> classify p = HTMLPage"
    using static_html_disjoint [of p] by (auto simp: classify_def)
  have c: "\<not> isStaticAsset p \<Longrightarrow> \<not> isHTMLPage p \<Longrightarrow> classify p = Other"
    by (simp add: classify_def)
  show ?thesis
    using a b c unfolding isStaticAsset_iff isHTMLPage_iff
    by (intro conjI impI classify_examples) blast+
qed

theorem classify_characterisation_witness:
  "suffix ''.css'' ''/style.css'' \<and> classify ''/style.css'' = StaticAsset
   \<and> suffix ''.html'' ''/about.html'' \<and> classify ''/about.html'' = HTMLPage
   \<and> \<not> suffix ''.html'' ''/api/data'' \<and> classify ''/api/data'' = Other"
  using classify_characterisation [of "''/style.css''"]
        classify_characterisation [of "''/about.html''"]
        classify_characterisation [of "''/api/data''"]
  by (simp add: suffix_to_prefix)

text \<open>
  C9. No path is both a static asset and an HTML page, so the three branches of the fetch
  listener are taken on three disjoint sets of paths that cover every path: each same-origin
  GET request is answered by exactly one of the three handlers, the one of its category.
\<close>

theorem static_html_exclusive:
  "\<not> (isStaticAsset p \<and> isHTMLPage p)
   \<and> (classify p = StaticAsset \<longleftrightarrow> isStaticAsset p)
   \<and> (classify p = HTMLPage \<longleftrightarrow> isHTMLPage p)
   \<and> (classify p = Other \<longleftrightarrow> \<not> isStaticAsset p \<and> \<not> isHTMLPage p)
   \<and> (method r = ''GET'' \<and> origin r = location_origin e \<longrightarrow>
        (isStaticAsset (pathname r) \<longrightarrow> on_fetch e w r = Some (handleStaticAsset e w r))
        \<and> (isHTMLPage (pathname r) \<longrightarrow> on_fetch e w r = Some (handleHTMLPage e w r))
        \<and> (\<not> isStaticAsset (pathname r) \<and> \<not> isHTMLPage (pathname r) \<longrightarrow>
             on_fetch e w r = Some (handleNetworkFirst e w r)))"
  using static_html_disjoint [of p] static_html_disjoint [of "pathname r"]
  by (auto simp: classify_def on_fetch_def)

theorem static_html_exclusive_witness:
  "isStaticAsset ''/style.css'' \<and> \<not> isHTMLPage ''/style.css''
   \<and> isHTMLPage ''/about.html'' \<and> \<not> isStaticAsset ''/about.html''
   \<and> on_fetch offline_env empty_world (get_request ''/style.css'') =
       Some (handleStaticAsset offline_env empty_world (get_request ''/style.css''))
   \<and> on_fetch offline_env empty_world (get_request ''/about.html'') =
       Some (handleHTMLPage offline_env empty_world (get_request ''/about.html''))
   \<and> on_fetch offline_env empty_world (get_request ''/api/data'') =
       Some (handleNetworkFirst offline_env empty_world (get_request ''/api/data''))"
proof -
  have s: "isStaticAsset ''/style.css''" "\<not> isStaticAsset ''/about.html''"
    "\<not> isStaticAsset ''/api/data''"
    by (simp_all add: isStaticAsset_def staticExtensions_def endsWith_def)
  have h: "isHTMLPage ''/about.html''" "\<not> isHTMLPage ''/style.css''" "\<not> isHTMLPage ''/api/data''"
    by (simp_all add: isHTMLPage_def endsWith_def)
  have g: "method (get_request q) = ''GET''" "pathname (get_request q) = q"
    "origin (get_request q) = location_origin offline_env" for q
    by (simp_all add: get_request_def offline_env_def)
  show ?thesis
    using static_html_exclusive [of "''/style.css''" "get_request ''/style.css''" offline_env
        empty_world]
      static_html_exclusive [of "''/about.html''" "get_request ''/about.html''" offline_env
        empty_world]
      static_html_exclusive [of "''/api/data''" "get_request ''/api/data''" offline_env
        empty_world]
    by (simp add: s h g)
qed

subsection \<open>Cache storage and handlers: frame lemmas\<close>

lemma keys_map_entry: "map fst (AList.map_entry k f xs) = map fst xs"
  by (induction xs) auto

lemma keys_cache_store: "caches_keys (cache_store cs n u v) = caches_keys cs"
  by (simp add: caches_keys_def cache_store_def keys_map_entry)

lemma filter_map_entry: "\<not> P (k, f v) \<Longrightarrow> (\<And>v. \<not> P (k, v)) \<Longrightarrow> filter P (AList.map_entry k f xs) = filter P xs"
  by (induction xs) auto

lemma others_cache_store:
  "filter (\<lambda>(n, c). n \<noteq> CACHE_NAME) (cache_store cs CACHE_NAME u v) =
   filter (\<lambda>(n, c). n \<noteq> CACHE_NAME) cs"
  unfolding cache_store_def by (induction cs) auto

lemma others_caches_open:
  "filter (\<lambda>(n, c). n \<noteq> CACHE_NAME) (caches_open cs CACHE_NAME) =
   filter (\<lambda>(n, c). n \<noteq> CACHE_NAME) cs"
  by (simp add: caches_open_def)

lemma others_cache_put:
  "cache_put e cs CACHE_NAME r v = Inr cs' \<Longrightarrow>
   filter (\<lambda>(n, c). n \<noteq> CACHE_NAME) cs' = filter (\<lambda>(n, c). n \<noteq> CACHE_NAME) cs"
  by (auto simp: cache_put_def others_cache_store split: if_splits)

lemma snd_handleStaticAsset: "snd (handleStaticAsset e w r) = snd (handleStaticAsset_try e w r)"
  by (simp add: handleStaticAsset_def split: prod.splits sum.splits option.splits)

lemma snd_handleHTMLPage: "snd (handleHTMLPage e w r) = snd (handleHTMLPage_try e w r)"
  by (simp add: handleHTMLPage_def split: prod.splits sum.splits option.splits)

lemma snd_handleNetworkFirst: "snd (handleNetworkFirst e w r) = snd (handleNetworkFirst_try e w r)"
  by (simp add: handleNetworkFirst_def split: prod.splits sum.splits option.splits)

lemma cache_put_Inr_iff:
  "cache_put e cs n r v = Inr cs' \<longleftrightarrow>
     method r = ''GET'' \<and> status v \<noteq> 206 \<and> \<not> storage_full e (request_url r)
       \<and> cs' = cache_store cs n (request_url r) v"
  by (auto simp: cache_put_def)

lemma others_handleStaticAsset:
  "filter (\<lambda>(n, c). n \<noteq> CACHE_NAME) (caches (snd (handleStaticAsset e w r))) =
   filter (\<lambda>(n, c). n \<noteq> CACHE_NAME) (caches w)"
  unfolding snd_handleStaticAsset handleStaticAsset_try_def Let_def
  by (simp add: cache_put_Inr_iff others_cache_store others_caches_open
      split: option.splits sum.splits)

lemma others_handleHTMLPage:
  "filter (\<lambda>(n, c). n \<noteq> CACHE_NAME) (caches (snd (handleHTMLPage e w r))) =
   filter (\<lambda>(n, c). n \<noteq> CACHE_NAME) (caches w)"
  unfolding snd_handleHTMLPage handleHTMLPage_try_def Let_def
  by (simp add: cache_put_Inr_iff others_cache_store others_caches_open
      split: option.splits sum.splits)

lemma others_handleNetworkFirst:
  "filter (\<lambda>(n, c). n \<noteq> CACHE_NAME) (caches (snd (handleNetworkFirst e w r))) =
   filter (\<lambda>(n, c). n \<noteq> CACHE_NAME) (caches w)"
  unfolding snd_handleNetworkFirst handleNetworkFirst_try_def Let_def
  by (simp add: cache_put_Inr_iff others_cache_store others_caches_open
      split: option.splits sum.splits)

lemma fold_delete_stale:
  "fold (\<lambda>cacheName cs. if cacheName \<noteq> C then caches_delete cs cacheName else cs) ns cs =
   filter (\<lambda>(n, c). n = C \<or> n \<notin> set ns) cs"
proof (induction ns arbitrary: cs)
  case Nil
  show ?case by simp
next
  case (Cons a ns)
  show ?case
    by (auto simp: Cons.IH caches_delete_def AList.delete_eq intro!: filter_cong)
qed

lemma caches_activate:
  "caches (snd (activate w)) = filter (\<lambda>(n, c). n = CACHE_NAME) (caches w)"
proof -
  have "filter (\<lambda>(n, c). n = CACHE_NAME \<or> n \<notin> set (map fst (caches w))) (caches w) =
        filter (\<lambda>(n, c). n = CACHE_NAME) (caches w)"
    by (rule filter_cong) force+
  then show ?thesis
    by (simp add: activate_def Let_def fold_delete_stale caches_keys_def)
qed

lemmas fixture_defs = example_origin_def offline_env_def empty_world_def get_request_def
  page_response_def not_found_response_def get_version_event_def
  bogus_event_def null_event_def untyped_event_def cached_world_def not_found_env_def stale_world_def online_env_def style_down_env_def

lemmas eval_defs = caches_match_def request_url_def new_request_def ok_def cache_put_def
  caches_open_def caches_has_def caches_keys_def cache_store_def caches_delete_def

subsection \<open>Cache-first strategy: C3\<close>

text \<open>
  C3. When the cache storage holds an entry for the request, the cache-first handler returns
  that entry and leaves the world as it was: nothing is added to the log of network calls.
  When the handler did call the network, the lookup had missed. The same holds through the
  fetch listener for a same-origin GET request to a static asset.
\<close>

theorem static_cache_hit_no_network:
  "(caches_match (caches w) r = Some c \<longrightarrow> handleStaticAsset e w r = (Inr c, w))
   \<and> (net_log (snd (handleStaticAsset e w r)) \<noteq> net_log w \<longrightarrow> caches_match (caches w) r = None)
   \<and> (caches_match (caches w) r = Some c \<and> method r = ''GET'' \<and> origin r = location_origin e
        \<and> isStaticAsset (pathname r) \<longrightarrow> on_fetch e w r = Some (Inr c, w))"
  by (cases "caches_match (caches w) r")
     (auto simp: handleStaticAsset_def handleStaticAsset_try_def on_fetch_def classify_def)

theorem static_cache_hit_no_network_witness:
  "caches_match (caches (cached_world ''/style.css'' ''css'')) (get_request ''/style.css'') =
       Some (page_response ''css'')
   \<and> handleStaticAsset offline_env (cached_world ''/style.css'' ''css'') (get_request ''/style.css'') =
       (Inr (page_response ''css''), cached_world ''/style.css'' ''css'')
   \<and> net_log (snd (handleStaticAsset offline_env empty_world (get_request ''/style.css''))) \<noteq>
       net_log empty_world
   \<and> caches_match (caches empty_world) (get_request ''/style.css'') = None"
  using static_cache_hit_no_network [of "cached_world ''/style.css'' ''css''"
      "get_request ''/style.css''" "page_response ''css''" offline_env]
    static_cache_hit_no_network [of empty_world "get_request ''/style.css''"
      "page_response ''css''" offline_env]
  by (simp add: fixture_defs caches_match_def request_url_def handleStaticAsset_def
      handleStaticAsset_try_def)

subsection \<open>Network-first strategy for pages: C2\<close>

lemma handleHTMLPage_network_down:
  assumes "fetch e r = None \<or> (\<exists>x. fetch e r = Some x \<and> \<not> ok x)"
  shows "handleHTMLPage e w r =
          (Inr (case caches_match (caches w) r of
                  Some cachedResponse \<Rightarrow> cachedResponse
                | None \<Rightarrow>
                    (case caches_match (caches w) (new_request e ''/index.html'') of
                       Some indexFallback \<Rightarrow> indexFallback
                     | None \<Rightarrow> offline_response)),
           w\<lparr>net_log := net_log w @ [r]\<rparr>)"
  using assms
  by (auto simp: handleHTMLPage_def handleHTMLPage_try_def Let_def split: option.splits)

lemma has_infix_sublist: "has_infix n h = sublist n h"
  by (induction h) (auto simp: sublist_Cons_right)

lemma offline_page_self_contained:
  "\<not> sublist ''href'' createOfflinePage"
  "\<not> sublist ''src='' createOfflinePage"
  "\<not> sublist ''url('' createOfflinePage"
  "\<not> sublist ''http'' createOfflinePage"
  "\<not> sublist ''@import'' createOfflinePage"
  unfolding has_infix_sublist [symmetric]
  by (simp_all add: createOfflinePage_def createOfflinePage_lines_def)

text \<open>
  What the offline page is: its length, its first two lines (the document type and the
  opening \<open>html\<close> tag), its last lines (the closing \<open>body\<close> and \<open>html\<close> tags), and
  the title, the style sheet, the body and the reload button in between.
\<close>

lemma offline_page_is_html_document:
  "length createOfflinePage = 2237"
  "prefix ([CHR 0x0A] @ ''    <!DOCTYPE html>'' @ [CHR 0x0A] @ ''    <html lang=\"en\">'')
     createOfflinePage"
  "sublist ''<title>Offline - Spiritual Count</title>'' createOfflinePage"
  "sublist ''<style>'' createOfflinePage"
  "sublist ''<body>'' createOfflinePage"
  "sublist ''<button onclick=\"window.location.reload()\">Try Again</button>'' createOfflinePage"
  "suffix (''    </body>'' @ [CHR 0x0A] @ ''    </html>'' @ [CHR 0x0A, CHR 0x20, CHR 0x20])
     createOfflinePage"
  unfolding has_infix_sublist [symmetric] endsWith_suffix [symmetric]
  by (simp_all add: endsWith_def createOfflinePage_def createOfflinePage_lines_def)

text \<open>
  The second fallback is the entry for \<^verbatim>\<open>/index.html\<close>: an entry for the path
  \<open>/\<close> alone does not serve another page.
\<close>

lemma html_fallback_ignores_root_path:
  "fst (handleHTMLPage offline_env (cached_world ''/'' ''root'') (get_request ''/about.html'')) =
     Inr offline_response"
  by (simp add: handleHTMLPage_def handleHTMLPage_try_def eval_defs fixture_defs)

lemma handleHTMLPage_answers: "\<exists>resp. fst (handleHTMLPage e w r) = Inr resp"
  by (simp add: handleHTMLPage_def split: prod.splits sum.splits option.splits)

text \<open>
  C2. When the network attempt for an HTML page fails or answers with a status that is not
  ok, the handler answers (its promise fulfils) with the first of: the cached entry for this
  request, the cached entry for \<^verbatim>\<open>/index.html\<close> (the root document of the application),
  the offline page built by \<^verbatim>\<open>createOfflinePage\<close>, which has status 200 and content
  type text/html, reads nothing from the cache and refers to no other resource (its text
  has no link, source, style import or URL). That page is an HTML document of 2237
  characters: it opens with the document type and the \<open>html\<close> tag, closes with the
  \<open>body\<close> and \<open>html\<close> tags, and holds its title, its own style sheet, its body and the
  button that reloads the page. The cache storage is not changed. The handler
  always answers, given that the fetch settles: the source sets no timeout of its own.
\<close>

theorem html_fallback_chain:
  assumes "fetch e r = None \<or> (\<exists>x. fetch e r = Some x \<and> \<not> ok x)"
  shows "fst (handleHTMLPage e w r) =
           Inr (case caches_match (caches w) r of
                  Some cachedResponse \<Rightarrow> cachedResponse
                | None \<Rightarrow>
                    (case caches_match (caches w) (new_request e ''/index.html'') of
                       Some indexFallback \<Rightarrow> indexFallback
                     | None \<Rightarrow> offline_response))
         \<and> caches (snd (handleHTMLPage e w r)) = caches w
         \<and> status offline_response = 200
         \<and> headers offline_response = [(''Content-Type'', ''text/html'')]
         \<and> body offline_response = createOfflinePage
         \<and> \<not> sublist ''href'' (body offline_response)
         \<and> \<not> sublist ''src='' (body offline_response)
         \<and> \<not> sublist ''url('' (body offline_response)
         \<and> \<not> sublist ''http'' (body offline_response)
         \<and> \<not> sublist ''@import'' (body offline_response)
         \<and> length (body offline_response) = 2237
         \<and> prefix ([CHR 0x0A] @ ''    <!DOCTYPE html>'' @ [CHR 0x0A] @ ''    <html lang=\"en\">'')
              (body offline_response)
         \<and> sublist ''<title>Offline - Spiritual Count</title>'' (body offline_response)
         \<and> sublist ''<style>'' (body offline_response)
         \<and> sublist ''<body>'' (body offline_response)
         \<and> sublist ''<button onclick=\"window.location.reload()\">Try Again</button>''
              (body offline_response)
         \<and> suffix (''    </body>'' @ [CHR 0x0A] @ ''    </html>'' @ [CHR 0x0A, CHR 0x20, CHR 0x20])
              (body offline_response)"
proof -
  have b: "body offline_response = createOfflinePage"
    by (simp add: offline_response_def)
  show ?thesis
    unfolding b
    using offline_page_self_contained offline_page_is_html_document
    by (simp add: handleHTMLPage_network_down [OF assms] offline_response_def)
qed

theorem html_fallback_chain_witness:
  "fetch offline_env (get_request ''/about.html'') = None
   \<and> fst (handleHTMLPage offline_env empty_world (get_request ''/about.html'')) =
       Inr offline_response
   \<and> fst (handleHTMLPage offline_env (cached_world ''/index.html'' ''index'')
            (get_request ''/about.html'')) = Inr (page_response ''index'')
   \<and> fst (handleHTMLPage offline_env (cached_world ''/about.html'' ''about'')
            (get_request ''/about.html'')) = Inr (page_response ''about'')
   \<and> fetch not_found_env (get_request ''/about.html'') = Some not_found_response
   \<and> \<not> ok not_found_response
   \<and> fst (handleHTMLPage not_found_env empty_world (get_request ''/about.html'')) =
       Inr offline_response"
  using html_fallback_chain [of offline_env "get_request ''/about.html''" empty_world]
    html_fallback_chain [of offline_env "get_request ''/about.html''"
      "cached_world ''/index.html'' ''index''"]
    html_fallback_chain [of offline_env "get_request ''/about.html''"
      "cached_world ''/about.html'' ''about''"]
    html_fallback_chain [of not_found_env "get_request ''/about.html''" empty_world]
  by (simp add: fixture_defs caches_match_def request_url_def new_request_def ok_def)

subsection \<open>Responses that are not ok: C7\<close>

lemma caches_handleStaticAsset_try_not_ok:
  "\<not> (\<exists>y. fetch e r = Some y \<and> ok y) \<Longrightarrow> caches (snd (handleStaticAsset_try e w r)) = caches w"
  by (cases "fetch e r") (auto simp: handleStaticAsset_try_def split: option.splits)

lemma caches_handleHTMLPage_try_not_ok:
  "\<not> (\<exists>y. fetch e r = Some y \<and> ok y) \<Longrightarrow> caches (snd (handleHTMLPage_try e w r)) = caches w"
  by (cases "fetch e r") (auto simp: handleHTMLPage_try_def)

lemma caches_handleNetworkFirst_try_not_ok:
  "\<not> (\<exists>y. fetch e r = Some y \<and> ok y) \<Longrightarrow> caches (snd (handleNetworkFirst_try e w r)) = caches w"
  by (cases "fetch e r") (auto simp: handleNetworkFirst_try_def)

lemma handleHTMLPage_not_ok_as_failure:
  assumes "fetch e r = Some x" and "\<not> ok x"
  shows "handleHTMLPage e w r = handleHTMLPage (e\<lparr>fetch := (fetch e)(r := None)\<rparr>) w r"
proof -
  have "handleHTMLPage e w r =
        (Inr (case caches_match (caches w) r of
                Some cachedResponse \<Rightarrow> cachedResponse
              | None \<Rightarrow>
                  (case caches_match (caches w) (new_request e ''/index.html'') of
                     Some indexFallback \<Rightarrow> indexFallback
                   | None \<Rightarrow> offline_response)),
         w\<lparr>net_log := net_log w @ [r]\<rparr>)"
    using assms by (intro handleHTMLPage_network_down) auto
  moreover have "handleHTMLPage (e\<lparr>fetch := (fetch e)(r := None)\<rparr>) w r =
        (Inr (case caches_match (caches w) r of
                Some cachedResponse \<Rightarrow> cachedResponse
              | None \<Rightarrow>
                  (case caches_match (caches w)
                     (new_request (e\<lparr>fetch := (fetch e)(r := None)\<rparr>) ''/index.html'') of
                     Some indexFallback \<Rightarrow> indexFallback
                   | None \<Rightarrow> offline_response)),
         w\<lparr>net_log := net_log w @ [r]\<rparr>)"
    by (intro handleHTMLPage_network_down) auto
  moreover have "new_request (e\<lparr>fetch := (fetch e)(r := None)\<rparr>) ''/index.html'' =
      new_request e ''/index.html''"
    by (simp add: new_request_def)
  ultimately show ?thesis
    by metis
qed

text \<open>
  C7. A network response whose status is not ok is returned as it is, and the cache storage
  stays as it was, by the cache-first handler (which reaches the network on a cache miss)
  and by the generic network-first handler. Whenever one of the three handlers changes the
  cache storage, the network response was ok. The HTML handler answers a response that is
  not ok exactly as it answers a failed fetch.
\<close>

theorem non_ok_responses:
  "(caches_match (caches w) r = None \<and> fetch e r = Some x \<and> \<not> ok x \<longrightarrow>
      handleStaticAsset e w r = (Inr x, w\<lparr>net_log := net_log w @ [r]\<rparr>))
   \<and> (fetch e r = Some x \<and> \<not> ok x \<longrightarrow>
      handleNetworkFirst e w r = (Inr x, w\<lparr>net_log := net_log w @ [r]\<rparr>))
   \<and> (caches (snd (handleStaticAsset e w r)) \<noteq> caches w \<longrightarrow> (\<exists>y. fetch e r = Some y \<and> ok y))
   \<and> (caches (snd (handleNetworkFirst e w r)) \<noteq> caches w \<longrightarrow> (\<exists>y. fetch e r = Some y \<and> ok y))
   \<and> (caches (snd (handleHTMLPage e w r)) \<noteq> caches w \<longrightarrow> (\<exists>y. fetch e r = Some y \<and> ok y))
   \<and> (fetch e r = Some x \<and> \<not> ok x \<longrightarrow>
      handleHTMLPage e w r = handleHTMLPage (e\<lparr>fetch := (fetch e)(r := None)\<rparr>) w r)"
proof (intro conjI impI)
  show "handleStaticAsset e w r = (Inr x, w\<lparr>net_log := net_log w @ [r]\<rparr>)"
    if "caches_match (caches w) r = None \<and> fetch e r = Some x \<and> \<not> ok x"
    using that by (simp add: handleStaticAsset_def handleStaticAsset_try_def)
  show "handleNetworkFirst e w r = (Inr x, w\<lparr>net_log := net_log w @ [r]\<rparr>)"
    if "fetch e r = Some x \<and> \<not> ok x"
    using that by (simp add: handleNetworkFirst_def handleNetworkFirst_try_def)
  show "\<exists>y. fetch e r = Some y \<and> ok y" if "caches (snd (handleStaticAsset e w r)) \<noteq> caches w"
    using that caches_handleStaticAsset_try_not_ok [of e r w]
    unfolding snd_handleStaticAsset by blast
  show "\<exists>y. fetch e r = Some y \<and> ok y" if "caches (snd (handleNetworkFirst e w r)) \<noteq> caches w"
    using that caches_handleNetworkFirst_try_not_ok [of e r w]
    unfolding snd_handleNetworkFirst by blast
  show "\<exists>y. fetch e r = Some y \<and> ok y" if "caches (snd (handleHTMLPage e w r)) \<noteq> caches w"
    using that caches_handleHTMLPage_try_not_ok [of e r w]
    unfolding snd_handleHTMLPage by blast
  show "handleHTMLPage e w r = handleHTMLPage (e\<lparr>fetch := (fetch e)(r := None)\<rparr>) w r"
    if "fetch e r = Some x \<and> \<not> ok x"
    using that handleHTMLPage_not_ok_as_failure by blast
qed


theorem non_ok_responses_witness:
  "caches_match (caches empty_world) (get_request ''/style.css'') = None
   \<and> fetch not_found_env (get_request ''/style.css'') = Some not_found_response
   \<and> \<not> ok not_found_response
   \<and> handleStaticAsset not_found_env empty_world (get_request ''/style.css'') =
       (Inr not_found_response, empty_world\<lparr>net_log := [get_request ''/style.css'']\<rparr>)
   \<and> handleNetworkFirst not_found_env empty_world (get_request ''/api/data'') =
       (Inr not_found_response, empty_world\<lparr>net_log := [get_request ''/api/data'']\<rparr>)
   \<and> caches (snd (handleStaticAsset online_env empty_world (get_request ''/style.css''))) \<noteq>
       caches empty_world
   \<and> caches (snd (handleNetworkFirst online_env empty_world (get_request ''/api/data''))) \<noteq>
       caches empty_world
   \<and> caches (snd (handleHTMLPage online_env empty_world (get_request ''/about.html''))) \<noteq>
       caches empty_world
   \<and> fetch online_env (get_request ''/style.css'') = Some (page_response ''content'')
   \<and> ok (page_response ''content'')
   \<and> handleHTMLPage not_found_env empty_world (get_request ''/about.html'') =
       handleHTMLPage (not_found_env\<lparr>fetch := (fetch not_found_env)(get_request ''/about.html'' := None)\<rparr>)
         empty_world (get_request ''/about.html'')"
proof -
  have miss: "caches_match (caches empty_world) (get_request ''/style.css'') = None"
    by (simp add: fixture_defs caches_match_def)
  have nf: "fetch not_found_env r = Some not_found_response" for r
    by (simp add: not_found_env_def)
  have nok: "\<not> ok not_found_response"
    by (simp add: not_found_response_def ok_def)
  have on: "fetch online_env r = Some (page_response ''content'')" for r
    by (simp add: online_env_def)
  have pok: "ok (page_response ''content'')"
    by (simp add: page_response_def ok_def)
  have c1: "caches (snd (handleStaticAsset online_env empty_world (get_request ''/style.css''))) \<noteq>
       caches empty_world"
    by (simp add: handleStaticAsset_def handleStaticAsset_try_def eval_defs fixture_defs)
  have c2: "caches (snd (handleNetworkFirst online_env empty_world (get_request ''/api/data''))) \<noteq>
       caches empty_world"
    by (simp add: handleNetworkFirst_def handleNetworkFirst_try_def eval_defs fixture_defs)
  have c3: "caches (snd (handleHTMLPage online_env empty_world (get_request ''/about.html''))) \<noteq>
       caches empty_world"
    by (simp add: handleHTMLPage_def handleHTMLPage_try_def eval_defs fixture_defs)
  show ?thesis
    using non_ok_responses [of empty_world "get_request ''/style.css''" not_found_env
        not_found_response]
      non_ok_responses [of empty_world "get_request ''/api/data''" not_found_env
        not_found_response]
      non_ok_responses [of empty_world "get_request ''/about.html''" not_found_env
        not_found_response]
      non_ok_responses [of empty_world "get_request ''/style.css''" online_env]
      miss nf nok on pok c1 c2 c3
    by (simp add: empty_world_def)
qed

subsection \<open>Namespaces written by the strategies: C8\<close>

lemma keys_activate_subset: "set (caches_keys (caches (snd (activate w)))) \<subseteq> {CACHE_NAME}"
  by (auto simp: caches_activate caches_keys_def)

lemma keys_of_others:
  "set (caches_keys cs) \<subseteq> insert CACHE_NAME (set (caches_keys (filter (\<lambda>(n, c). n \<noteq> CACHE_NAME) cs)))"
  by (auto simp: caches_keys_def image_iff)

lemma keys_after_handler:
  assumes "filter (\<lambda>(n, c). n \<noteq> CACHE_NAME) cs' = filter (\<lambda>(n, c). n \<noteq> CACHE_NAME) cs"
    and "set (caches_keys cs) \<subseteq> {CACHE_NAME}"
  shows "set (caches_keys cs') \<subseteq> {CACHE_NAME}"
proof -
  have "set (caches_keys (filter (\<lambda>(n, c). n \<noteq> CACHE_NAME) cs)) \<subseteq> set (caches_keys cs)"
    by (auto simp: caches_keys_def)
  then show ?thesis
    using keys_of_others [of cs'] assms by auto
qed

text \<open>
  C8. The three handlers write to the cache named \<^verbatim>\<open>CACHE_NAME\<close>, which is
  \<open>spiritual-count-v1\<close>, and to no other: the caches of every other name, with their
  entries and their order, are after each handler what they were before. So a handler that
  runs after activation leaves no name but \<^verbatim>\<open>CACHE_NAME\<close> in the cache storage.
\<close>

theorem strategies_write_current_namespace_only:
  "filter (\<lambda>(n, c). n \<noteq> CACHE_NAME) (caches (snd (handleStaticAsset e w r))) =
     filter (\<lambda>(n, c). n \<noteq> CACHE_NAME) (caches w)
   \<and> filter (\<lambda>(n, c). n \<noteq> CACHE_NAME) (caches (snd (handleHTMLPage e w r))) =
     filter (\<lambda>(n, c). n \<noteq> CACHE_NAME) (caches w)
   \<and> filter (\<lambda>(n, c). n \<noteq> CACHE_NAME) (caches (snd (handleNetworkFirst e w r))) =
     filter (\<lambda>(n, c). n \<noteq> CACHE_NAME) (caches w)
   \<and> set (caches_keys (caches (snd (handleStaticAsset e (snd (activate w)) r)))) \<subseteq> {CACHE_NAME}
   \<and> set (caches_keys (caches (snd (handleHTMLPage e (snd (activate w)) r)))) \<subseteq> {CACHE_NAME}
   \<and> set (caches_keys (caches (snd (handleNetworkFirst e (snd (activate w)) r)))) \<subseteq> {CACHE_NAME}
   \<and> CACHE_NAME = ''spiritual-count-v1''"
proof -
  have name: "CACHE_NAME = ''spiritual-count-v1''"
    by (simp add: CACHE_NAME_def)
  show ?thesis
    using keys_after_handler [OF others_handleStaticAsset keys_activate_subset, of e w r]
      keys_after_handler [OF others_handleHTMLPage keys_activate_subset, of e w r]
      keys_after_handler [OF others_handleNetworkFirst keys_activate_subset, of e w r]
      others_handleStaticAsset [of e w r] others_handleHTMLPage [of e w r]
      others_handleNetworkFirst [of e w r] name
    by blast
qed

theorem strategies_write_current_namespace_only_witness:
  "caches (snd (handleStaticAsset online_env stale_world (get_request ''/style.css''))) =
     [(''spiritual-count-v0'', [((example_origin, ''/''), page_response ''old'')]),
      (CACHE_NAME, [((example_origin, ''/style.css''), page_response ''content'')])]
   \<and> filter (\<lambda>(n, c). n \<noteq> CACHE_NAME)
        (caches (snd (handleStaticAsset online_env stale_world (get_request ''/style.css'')))) =
      [(''spiritual-count-v0'', [((example_origin, ''/''), page_response ''old'')])]
   \<and> caches (snd (handleHTMLPage online_env (snd (activate stale_world))
        (get_request ''/about.html''))) =
      [(CACHE_NAME, [((example_origin, ''/about.html''), page_response ''content'')])]"
proof -
  have a: "caches (snd (handleStaticAsset online_env stale_world (get_request ''/style.css''))) =
     [(''spiritual-count-v0'', [((example_origin, ''/''), page_response ''old'')]),
      (CACHE_NAME, [((example_origin, ''/style.css''), page_response ''content'')])]"
    by (simp add: handleStaticAsset_def handleStaticAsset_try_def eval_defs fixture_defs
        CACHE_NAME_def)
  have b: "caches (snd (handleHTMLPage online_env (snd (activate stale_world))
        (get_request ''/about.html''))) =
      [(CACHE_NAME, [((example_origin, ''/about.html''), page_response ''content'')])]"
    by (simp add: handleHTMLPage_def handleHTMLPage_try_def activate_def eval_defs fixture_defs
        CACHE_NAME_def AList.delete_eq)
  show ?thesis
    using strategies_write_current_namespace_only [of online_env stale_world
        "get_request ''/style.css''"] a b
    by (simp add: stale_world_def empty_world_def CACHE_NAME_def)
qed


subsection \<open>Activation: C5\<close>

lemma caches_has_open: "caches_has (caches_open cs n) n"
  by (simp add: caches_open_def caches_has_def caches_keys_def)

lemma caches_open_idem: "caches_has cs n \<Longrightarrow> caches_open cs n = cs"
  by (simp add: caches_open_def)

lemma keys_fold_store:
  "caches_keys (fold (\<lambda>(q, x) cs. cache_store cs n (request_url q) x) pairs cs) = caches_keys cs"
  by (induction pairs arbitrary: cs) (auto simp: keys_cache_store)

lemma keys_cache_addAll:
  "caches_keys (caches (snd (cache_addAll e w n paths))) = caches_keys (caches w)"
  by (simp add: cache_addAll_def Let_def keys_fold_store split: option.splits)

lemma keys_cache_optional:
  "caches_keys (caches (cache_optional e asset w)) = caches_keys (caches w)"
  by (simp add: cache_optional_def Let_def cache_put_Inr_iff keys_cache_store
      split: option.splits sum.splits)

lemma keys_fold_optional:
  "caches_keys (caches (fold (cache_optional e) assets w)) = caches_keys (caches w)"
  by (induction assets arbitrary: w) (auto simp: keys_cache_optional)

lemma keys_install_chain:
  "caches_keys (caches (snd (install_chain e w))) = caches_keys (caches_open (caches w) CACHE_NAME)"
proof (cases "cache_addAll e (w\<lparr>caches := caches_open (caches w) CACHE_NAME\<rparr>) CACHE_NAME CORE_ASSETS")
  case (Pair res w2)
  have k2: "caches_keys (caches w2) = caches_keys (caches_open (caches w) CACHE_NAME)"
    using keys_cache_addAll [of e "w\<lparr>caches := caches_open (caches w) CACHE_NAME\<rparr>"
        CACHE_NAME CORE_ASSETS] Pair by simp
  then have "caches_has (caches w2) CACHE_NAME"
    using caches_has_open [of "caches w" CACHE_NAME] by (simp add: caches_has_def)
  then have "caches_open (caches w2) CACHE_NAME = caches w2"
    by (rule caches_open_idem)
  then show ?thesis
    using Pair k2 by (cases res) (simp_all add: install_chain_def Let_def keys_fold_optional)
qed

lemma snd_install: "snd (install e w) = snd (install_chain e w)"
  by (simp add: install_def split: prod.splits option.splits)

lemma install_opens_current: "caches_has (caches (snd (install e w))) CACHE_NAME"
  using caches_has_open [of "caches w" CACHE_NAME]
  by (simp add: snd_install caches_has_def keys_install_chain)

text \<open>
  C5, as stated, fails when the current cache does not exist before activation: activation
  creates no cache, so from the empty cache storage it leaves the empty cache storage, which
  does not hold exactly the current name.
\<close>

theorem activate_empty_counterexample:
  "set (caches_keys (caches (snd (activate empty_world)))) \<noteq> {CACHE_NAME}"
  by (simp add: activate_def empty_world_def caches_keys_def)

text \<open>
  C5, amended. Activation keeps the caches named \<^verbatim>\<open>CACHE_NAME\<close> as they are and
  deletes every cache of another name, however many there are. Afterwards the set of names
  is exactly the current name when the current cache existed before, and is empty when it
  did not. It existed after every run of install, which opens it: install followed by
  activate always leaves exactly the current name.
\<close>

theorem activate_evicts_stale:
  "caches (snd (activate w)) = filter (\<lambda>(n, c). n = CACHE_NAME) (caches w)
   \<and> (\<forall>n \<in> set (caches_keys (caches w)).
        n \<noteq> CACHE_NAME \<longrightarrow> \<not> caches_has (caches (snd (activate w))) n)
   \<and> (caches_has (caches w) CACHE_NAME \<longrightarrow>
        set (caches_keys (caches (snd (activate w)))) = {CACHE_NAME})
   \<and> (\<not> caches_has (caches w) CACHE_NAME \<longrightarrow> caches (snd (activate w)) = [])
   \<and> set (caches_keys (caches (snd (activate (snd (install e w)))))) = {CACHE_NAME}"
proof -
  have none: "caches (snd (activate w)) = []" if "\<not> caches_has (caches w) CACHE_NAME"
    using that by (force simp: caches_activate caches_has_def caches_keys_def filter_empty_conv)
  have one: "set (caches_keys (caches (snd (activate v)))) = {CACHE_NAME}"
    if "caches_has (caches v) CACHE_NAME" for v
    using that by (auto simp: caches_activate caches_has_def caches_keys_def)
  have gone: "\<not> caches_has (caches (snd (activate w))) n" if "n \<noteq> CACHE_NAME" for n
    using that by (auto simp: caches_activate caches_has_def caches_keys_def)
  show ?thesis
    using one [of w] one [OF install_opens_current] gone none by (simp add: caches_activate)
qed

theorem activate_evicts_stale_witness:
  "''spiritual-count-v0'' \<in> set (caches_keys (caches stale_world))
   \<and> ''spiritual-count-v0'' \<noteq> CACHE_NAME
   \<and> \<not> caches_has (caches (snd (activate stale_world))) ''spiritual-count-v0''
   \<and> caches_has (caches stale_world) CACHE_NAME
   \<and> caches_keys (caches (snd (activate stale_world))) = [CACHE_NAME]
   \<and> set (caches_keys (caches (snd (activate stale_world)))) = {CACHE_NAME}
   \<and> \<not> caches_has (caches empty_world) CACHE_NAME
   \<and> caches (snd (activate empty_world)) = []"
  using activate_evicts_stale [of stale_world] activate_evicts_stale [of empty_world]
  by (simp add: stale_world_def empty_world_def caches_keys_def caches_has_def CACHE_NAME_def)


subsection \<open>Message listener: C6 and C10\<close>

lemma posted_postMessage:
  "\<exists>rs. posted (snd (postMessage ev w m)) = posted w @ rs \<and> length rs \<le> 1
     \<and> (\<forall>(p, m') \<in> set rs. \<exists>ps. ev_ports ev = p # ps)"
  by (cases "ev_ports ev") (auto simp: postMessage_def)

lemma get_prop_truthy: "truthy (get_prop v k) \<Longrightarrow> truthy v"
  by (cases v) auto

text \<open>
  C6. Every message gets at most one reply, and a reply goes to the first port of the event.
  A message whose type is GET_VERSION, on an event with a port, gets exactly one reply, which
  carries \<^verbatim>\<open>CACHE_VERSION\<close>, that is 1.0.0. A message whose type is none of GET_VERSION,
  SKIP_WAITING and CACHE_STATUS gets no reply and changes nothing.
\<close>

theorem message_replies:
  "(\<exists>rs. posted (snd (on_message ev w)) = posted w @ rs \<and> length rs \<le> 1
       \<and> (\<forall>(p, m) \<in> set rs. \<exists>ps. ev_ports ev = p # ps))
   \<and> (get_prop (ev_data ev) ''type'' = JStr ''GET_VERSION'' \<and> ev_ports ev = p # ps \<longrightarrow>
        on_message ev w =
          (None, w\<lparr>posted := posted w @
             [(p, JObj [(''type'', JStr ''VERSION''), (''version'', JStr CACHE_VERSION)])]\<rparr>))
   \<and> (get_prop (ev_data ev) ''type'' \<notin>
          {JStr ''GET_VERSION'', JStr ''SKIP_WAITING'', JStr ''CACHE_STATUS''} \<longrightarrow>
        on_message ev w = (None, w))
   \<and> CACHE_VERSION = ''1.0.0''"
proof (intro conjI impI)
  show "\<exists>rs. posted (snd (on_message ev w)) = posted w @ rs \<and> length rs \<le> 1
       \<and> (\<forall>(p, m) \<in> set rs. \<exists>ps. ev_ports ev = p # ps)"
    using posted_postMessage [of ev w] posted_postMessage [of ev "w\<lparr>skip_waiting := True\<rparr>"]
    by (simp add: on_message_def Let_def)
  show "on_message ev w =
          (None, w\<lparr>posted := posted w @
             [(p, JObj [(''type'', JStr ''VERSION''), (''version'', JStr CACHE_VERSION)])]\<rparr>)"
    if "get_prop (ev_data ev) ''type'' = JStr ''GET_VERSION'' \<and> ev_ports ev = p # ps"
  proof -
    have "truthy (get_prop (ev_data ev) ''type'')"
      using that by simp
    then have "truthy (ev_data ev)"
      by (rule get_prop_truthy)
    then show ?thesis
      using that by (simp add: on_message_def postMessage_def)
  qed
  show "on_message ev w = (None, w)"
    if "get_prop (ev_data ev) ''type'' \<notin>
          {JStr ''GET_VERSION'', JStr ''SKIP_WAITING'', JStr ''CACHE_STATUS''}"
    using that by (simp add: on_message_def)
  show "CACHE_VERSION = ''1.0.0''"
    by (simp add: CACHE_VERSION_def)
qed

theorem message_replies_witness:
  "get_prop (ev_data get_version_event) ''type'' = JStr ''GET_VERSION''
   \<and> ev_ports get_version_event = [7]
   \<and> posted (snd (on_message get_version_event empty_world)) =
       [(7, JObj [(''type'', JStr ''VERSION''), (''version'', JStr ''1.0.0'')])]
   \<and> get_prop (ev_data bogus_event) ''type'' = JStr ''bogus''
   \<and> posted (snd (on_message bogus_event empty_world)) = []"
  using message_replies [of get_version_event empty_world 7 "[]"]
    message_replies [of bogus_event empty_world 7 "[]"]
  by (simp add: get_version_event_def bogus_event_def empty_world_def)

text \<open>
  C10. A message whose data is null or undefined, or any value that is not an object with a
  \<open>type\<close> field, gets no reply: the listener returns normally and the world is unchanged.
\<close>

theorem malformed_message_ignored:
  assumes "\<forall>fs. ev_data ev = JObj fs \<longrightarrow> map_of fs ''type'' = None"
  shows "on_message ev w = (None, w)"
proof -
  have "get_prop (ev_data ev) ''type'' = JUndefined"
    using assms by (cases "ev_data ev") auto
  then show ?thesis
    by (simp add: on_message_def)
qed

theorem malformed_message_ignored_witness:
  "ev_data null_event = JNull
   \<and> on_message null_event empty_world = (None, empty_world)
   \<and> ev_data untyped_event = JObj [(''kind'', JStr ''GET_VERSION'')]
   \<and> map_of [(''kind'', JStr ''GET_VERSION'')] ''type'' = None
   \<and> on_message untyped_event empty_world = (None, empty_world)
   \<and> on_message (null_event\<lparr>ev_data := JUndefined\<rparr>) empty_world = (None, empty_world)"
proof -
  have a: "\<forall>fs. ev_data null_event = JObj fs \<longrightarrow> map_of fs ''type'' = None"
    by (simp add: null_event_def)
  have b: "\<forall>fs. ev_data untyped_event = JObj fs \<longrightarrow> map_of fs ''type'' = None"
    by (simp add: untyped_event_def)
  have c: "\<forall>fs. ev_data (null_event\<lparr>ev_data := JUndefined\<rparr>) = JObj fs \<longrightarrow>
      map_of fs ''type'' = None"
    by simp
  show ?thesis
    using malformed_message_ignored [OF a, of empty_world]
      malformed_message_ignored [OF b, of empty_world]
      malformed_message_ignored [OF c, of empty_world]
    by (simp add: null_event_def untyped_event_def)
qed

subsection \<open>Install: C1\<close>

lemma install_fulfils: "fst (install e w) = Fulfilled"
  by (simp add: install_def split: prod.splits option.splits)

lemma install_chain_core_failure:
  assumes "fetch_all e (map (new_request e) CORE_ASSETS) = None"
  shows "install_chain e w =
     (Some TypeError,
      w\<lparr>caches := caches_open (caches w) CACHE_NAME,
        net_log := net_log w @ map (new_request e) CORE_ASSETS\<rparr>)"
  using assms by (simp add: install_chain_def cache_addAll_def Let_def)

text \<open>
  C1 does not hold of the code. When the fetch of the core asset \<^verbatim>\<open>/style.css\<close> fails,
  the promise chain rejects with a TypeError, but the last \<^verbatim>\<open>.catch\<close> of the listener
  handles the rejection: the promise given to \<^verbatim>\<open>event.waitUntil\<close> fulfils, so the host
  takes the worker as installed, with an empty current cache. Only the skip-waiting signal is
  not given.
\<close>

theorem install_core_failure_swallowed:
  "fetch style_down_env (new_request style_down_env ''/style.css'') = None
   \<and> fst (install_chain style_down_env empty_world) = Some TypeError
   \<and> fst (install style_down_env empty_world) = Fulfilled
   \<and> after_install (fst (install style_down_env empty_world)) = Installed
   \<and> caches (snd (install style_down_env empty_world)) = [(CACHE_NAME, [])]
   \<and> \<not> skip_waiting (snd (install style_down_env empty_world))"
proof -
  have f: "fetch_all style_down_env (map (new_request style_down_env) CORE_ASSETS) = None"
    by (simp add: CORE_ASSETS_def new_request_def style_down_env_def page_response_def ok_def)
  show ?thesis
    by (simp add: install_def install_chain_core_failure [OF f] after_install_def)
       (simp add: style_down_env_def new_request_def empty_world_def caches_open_def
          caches_has_def caches_keys_def)
qed

end
